theory Spec2Isabelle
  imports Complex_Main
begin

section \<open>SelectCommon.vue: a remotely paginated select\<close>

text \<open>
  The script block of \<^verbatim>\<open>src/SelectCommon.vue\<close> is embedded as state passing over a
  record of the component's props and refs. Two further fields record the effects the
  script has on the outside: every invocation of the injected \<^verbatim>\<open>fetchData\<close> (with the
  refs as they stood at the call) and every call of the \<^verbatim>\<open>message\<close> utility.

  JavaScript values that reach the script are strings, numbers and \<^verbatim>\<open>undefined\<close>.
  The numbers held in values are page counters, lengths and identifiers, modelled as
  integers; \<^verbatim>\<open>===\<close> on these values is HOL equality (NaN, the one value that differs
  from itself, is left out). The two places where the script computes with numbers, the
  \<^verbatim>\<open>++\<close> on the page counter and the sum in the scroll handler, are IEEE double
  arithmetic and are modelled as such: the exact result, rounded to the nearest double.

  Each handler is modelled as one atomic step: the \<^verbatim>\<open>await\<close> inside \<^verbatim>\<open>getData\<close> is
  filled by the outcome of the fetch at once, so the interleaving of two loads in flight
  and the timers of \<^verbatim>\<open>debounce\<close> are outside the model. \<^verbatim>\<open>remoteSearch\<close> and
  \<^verbatim>\<open>handleScroll\<close> below are the functions that \<^verbatim>\<open>debounce\<close> wraps.
\<close>

subsection \<open>Values\<close>

datatype jsval = Str string | Num int | Undefined

text \<open>JavaScript truthiness, as used by \<^verbatim>\<open>&&\<close>, \<^verbatim>\<open>!\<close> and \<^verbatim>\<open>if\<close>.\<close>

fun truthy :: "jsval \<Rightarrow> bool" where
  "truthy (Str s) = (s \<noteq> [])"
| "truthy (Num n) = (n \<noteq> 0)"
| "truthy Undefined = False"

text \<open>
  Doubles. A finite double is a rational with at most 53 significant bits; \<open>to_double\<close>
  rounds a rational to the nearest one, ties to the even significand (the infinities
  beyond \<open>2 ^ 1024\<close> are left out). \<open>bits n\<close> is the length of \<open>n\<close> in binary and
  \<open>ilog2 x\<close> the exponent \<open>e\<close> with \<open>2 ^ e \<le> \<bar>x\<bar> < 2 ^ (e + 1)\<close>.
\<close>

function bits :: "int \<Rightarrow> nat" where
  "bits n = (if n \<le> 0 then 0 else Suc (bits (n div 2)))"
  by pat_completeness auto
termination
  by (relation "measure nat") auto

declare bits.simps [simp del]

definition pow2 :: "int \<Rightarrow> rat" where
  "pow2 e = (if 0 \<le> e then 2 ^ nat e else 1 / 2 ^ nat (- e))"

definition ilog2 :: "rat \<Rightarrow> int" where
  "ilog2 x =
     (let (p, q) = quotient_of \<bar>x\<bar>;
          d = int (bits p) - int (bits q)
      in if pow2 d \<le> \<bar>x\<bar> then d else d - 1)"

text \<open>Rounding to the nearest integer, a tie going to the even one.\<close>

definition rne :: "rat \<Rightarrow> int" where
  "rne x =
     (let f = \<lfloor>x\<rfloor>; r = x - of_int f
      in if r < 1 / 2 then f
         else if 1 / 2 < r then f + 1
         else if even f then f else f + 1)"

definition to_double :: "rat \<Rightarrow> rat" where
  "to_double x =
     (if x = 0 then 0
      else let u = max (ilog2 x - 52) (- 1074)
           in of_int (rne (x / pow2 u)) * pow2 u)"

text \<open>\<^verbatim>\<open>x + y\<close> on two doubles, and \<^verbatim>\<open>n++\<close> on a counter that holds a whole number.\<close>

definition js_add :: "rat \<Rightarrow> rat \<Rightarrow> rat" where
  "js_add x y = to_double (x + y)"

definition js_incr :: "int \<Rightarrow> int" where
  "js_incr n = \<lfloor>js_add (of_int n) 1\<rfloor>"

text \<open>\<^verbatim>\<open>FetchParams\<close>: an object with string keys. Reading an absent key gives \<^verbatim>\<open>undefined\<close>.\<close>

type_synonym FetchParams = "string \<rightharpoonup> jsval"

definition prop_of :: "FetchParams \<Rightarrow> string \<Rightarrow> jsval" where
  "prop_of obj k = (case obj k of None \<Rightarrow> Undefined | Some v \<Rightarrow> v)"

text \<open>An item of a fetched page, \<^verbatim>\<open>{id, name}\<close>, and an entry of the option list.\<close>

record item =
  item_id :: jsval
  item_name :: jsval

record select_option =
  opt_label :: jsval
  opt_value :: jsval

text \<open>
  What \<^verbatim>\<open>await props.fetchData(params)\<close> produces: the promise rejects (or the call
  throws) with a payload, or it resolves. A resolved value is \<^verbatim>\<open>null\<close>/\<^verbatim>\<open>undefined\<close>
  (\<open>None\<close>) or an object with a truthy or falsy \<^verbatim>\<open>error\<close> and an optional \<^verbatim>\<open>items\<close>
  array.
\<close>

record response =
  error :: bool
  items :: "item list option"

datatype fetch_outcome = Rejects jsval | Resolves "response option"

text \<open>What a \<^verbatim>\<open>catch\<close> clause can receive.\<close>

datatype exn = Rejection jsval | TypeError

subsection \<open>State\<close>

text \<open>The refs as seen by \<^verbatim>\<open>fetchData\<close> at the moment it is called.\<close>

record snapshot =
  at_itemList :: "select_option list"
  at_totalItems :: int
  at_loading :: bool
  at_currentPage :: int
  at_hasMore :: bool

text \<open>A DOM element as far as the script touches it.\<close>

record element =
  scroll_listener :: bool
  el_scrollTop :: rat

record world =
  \<comment> \<open>props\<close>
  modelValue :: jsval
  name :: string
  param :: FetchParams
  \<comment> \<open>refs\<close>
  value_ref :: jsval
  itemList :: "select_option list"
  totalItems :: int
  loading :: bool
  currentPage :: int
  hasMore :: bool
  \<comment> \<open>effects: calls of \<^verbatim>\<open>fetchData\<close>, calls of \<^verbatim>\<open>message\<close>\<close>
  fetch_calls :: "(FetchParams \<times> snapshot) list"
  toasts :: "(exn \<times> string \<times> string) list"
  \<comment> \<open>\<^verbatim>\<open>.myselect-loadmore .el-select-dropdown__wrap\<close> and \<^verbatim>\<open>.el-select-dropdown\<close>, if present\<close>
  wrap_el :: "element option"
  dropdown_el :: "element option"

definition snapshot_of :: "world \<Rightarrow> snapshot" where
  "snapshot_of w =
     \<lparr>at_itemList = itemList w, at_totalItems = totalItems w, at_loading = loading w,
      at_currentPage = currentPage w, at_hasMore = hasMore w\<rparr>"

text \<open>Lines 33-39: the refs at setup.\<close>

definition mount :: "jsval \<Rightarrow> string \<Rightarrow> FetchParams \<Rightarrow> world" where
  "mount mv nm prm =
     \<lparr>modelValue = mv, name = nm, param = prm,
      value_ref = mv, itemList = [], totalItems = 0, loading = False,
      currentPage = 1, hasMore = True,
      fetch_calls = [], toasts = [], wrap_el = None, dropdown_el = None\<rparr>"

text \<open>
  Modelled from the spec: the \<^verbatim>\<open>message\<close> utility of \<^verbatim>\<open>@/utils/message\<close> is not part
  of the sources. The spec describes it as a notification sink invoked with the error
  payload and \<^verbatim>\<open>{customClass, type: 'error'}\<close>; it is modelled as recording the call
  and returning normally.
\<close>

definition message :: "exn \<Rightarrow> string \<times> string \<Rightarrow> world \<Rightarrow> world" where
  "message e opts w = w\<lparr>toasts := toasts w @ [(e, opts)]\<rparr>"

subsection \<open>Watchers\<close>

text \<open>
  Lines 48-57 and 82-90 (the same block twice): when the name and the value are both
  truthy and no entry of the list has the value, an entry for it is put in front.
\<close>

definition ensure_name :: "string \<Rightarrow> jsval \<Rightarrow> select_option list \<Rightarrow> select_option list" where
  "ensure_name nm v xs =
     (if nm \<noteq> [] \<and> truthy v then
        (case find (\<lambda>it. opt_value it = v) xs of
           None \<Rightarrow> \<lparr>opt_label = Str nm, opt_value = v\<rparr> # xs
         | Some existingItem \<Rightarrow> xs)
      else xs)"

text \<open>Lines 42-44: the prop \<^verbatim>\<open>modelValue\<close> changes.\<close>

definition watch_modelValue :: "jsval \<Rightarrow> world \<Rightarrow> world" where
  "watch_modelValue newVal w = (w\<lparr>modelValue := newVal\<rparr>)\<lparr>value_ref := newVal\<rparr>"

text \<open>Lines 47-58: the prop \<^verbatim>\<open>name\<close> changes.\<close>

definition watch_name :: "string \<Rightarrow> world \<Rightarrow> world" where
  "watch_name newVal w =
     (let w1 = w\<lparr>name := newVal\<rparr>
      in w1\<lparr>itemList := ensure_name newVal (value_ref w1) (itemList w1)\<rparr>)"

subsection \<open>getData\<close>

text \<open>Lines 68-71: \<^verbatim>\<open>res.items?.map(...) || []\<close>.\<close>

definition newItems_of :: "response \<Rightarrow> select_option list" where
  "newItems_of res =
     (case items res of
        None \<Rightarrow> []
      | Some its \<Rightarrow> map (\<lambda>it. \<lparr>opt_label = item_name it, opt_value = item_id it\<rparr>) its)"

text \<open>
  Lines 66-100, the body of \<^verbatim>\<open>try\<close>. It throws where the fetch rejects and where
  \<^verbatim>\<open>res.error\<close> is read off \<^verbatim>\<open>null\<close> or \<^verbatim>\<open>undefined\<close>, in both cases before any ref is
  written.
\<close>

definition try_block :: "FetchParams \<Rightarrow> bool \<Rightarrow> fetch_outcome \<Rightarrow> world \<Rightarrow> exn + world" where
  "try_block params isLoadMore out w =
     (case out of
        Rejects e \<Rightarrow> Inl (Rejection e)
      | Resolves None \<Rightarrow> Inl TypeError
      | Resolves (Some res) \<Rightarrow>
          if \<not> error res then
            let newItems = newItems_of res;
                w1 = (if isLoadMore then w\<lparr>itemList := itemList w @ newItems\<rparr>
                      else w\<lparr>itemList := newItems\<rparr>);
                w2 = w1\<lparr>itemList := ensure_name (name w1) (value_ref w1) (itemList w1)\<rparr>;
                w3 = w2\<lparr>hasMore := (Num (int (length newItems)) = prop_of params ''MaxResultCount'')\<rparr>
            in Inr (w3\<lparr>totalItems := int (length (itemList w3))\<rparr>)
          else
            Inr (w\<lparr>itemList := [], hasMore := False, totalItems := 0\<rparr>))"

text \<open>Lines 101-106, the \<^verbatim>\<open>catch\<close> clause.\<close>

definition catch_block :: "exn \<Rightarrow> world \<Rightarrow> world" where
  "catch_block e w =
     message e (''el'', ''error'') (w\<lparr>itemList := [], hasMore := False, totalItems := 0\<rparr>)"

text \<open>
  Lines 61-110. \<open>Inl\<close> would be an exception that leaves \<^verbatim>\<open>getData\<close> (a rejection of
  the promise it returns).
\<close>

definition getData :: "(FetchParams \<Rightarrow> fetch_outcome) \<Rightarrow> FetchParams \<Rightarrow> bool \<Rightarrow> world \<Rightarrow> exn + world" where
  "getData fetchData params isLoadMore w =
     (if \<not> hasMore w \<and> isLoadMore then Inr w
      else
        let w1 = w\<lparr>loading := True\<rparr>;
            w2 = w1\<lparr>fetch_calls := fetch_calls w1 @ [(params, snapshot_of w1)]\<rparr>
        in (case try_block params isLoadMore (fetchData params) w2 of
              Inr w3 \<Rightarrow> Inr (w3\<lparr>loading := False\<rparr>)
            | Inl e \<Rightarrow> Inr ((catch_block e w2)\<lparr>loading := False\<rparr>)))"

subsection \<open>Handlers\<close>

text \<open>Lines 113-133, the function given to \<^verbatim>\<open>debounce\<close>.\<close>

definition remoteSearch :: "(FetchParams \<Rightarrow> fetch_outcome) \<Rightarrow> string \<Rightarrow> world \<Rightarrow> exn + world" where
  "remoteSearch fetchData query w =
     (let w1 = w\<lparr>currentPage := 1\<rparr>;
          w2 = w1\<lparr>hasMore := True\<rparr>
      in if query \<noteq> [] then
           getData fetchData
             ((param w2)(''skipCount'' \<mapsto> Num 1, ''MaxResultCount'' \<mapsto> Num 10,
                         ''keyword'' \<mapsto> Str query)) False w2
         else
           getData fetchData
             ((param w2)(''skipCount'' \<mapsto> Num 1, ''MaxResultCount'' \<mapsto> Num 10)) False w2)"

text \<open>Lines 135-143.\<close>

definition onMounted :: "(FetchParams \<Rightarrow> fetch_outcome) \<Rightarrow> world \<Rightarrow> exn + world" where
  "onMounted fetchData w =
     getData fetchData ((param w)(''skipCount'' \<mapsto> Num 1, ''MaxResultCount'' \<mapsto> Num 10)) False w"

text \<open>Lines 145-175.\<close>

definition handleVisibleChange :: "(FetchParams \<Rightarrow> fetch_outcome) \<Rightarrow> bool \<Rightarrow> world \<Rightarrow> exn + world" where
  "handleVisibleChange fetchData visible w =
     (if visible then
        let w1 = w\<lparr>itemList := []\<rparr>;
            w2 = w1\<lparr>totalItems := 0\<rparr>;
            w3 = w2\<lparr>hasMore := True\<rparr>;
            w4 = w3\<lparr>currentPage := 1\<rparr>
        in (case getData fetchData
                   ((param w4)(''skipCount'' \<mapsto> Num 1, ''MaxResultCount'' \<mapsto> Num 10)) False w4 of
              Inl e \<Rightarrow> Inl e
            | Inr w5 \<Rightarrow>
                (case wrap_el w5 of
                   None \<Rightarrow> Inr w5
                 | Some dropdown \<Rightarrow>
                     Inr (w5\<lparr>wrap_el := Some (dropdown\<lparr>scroll_listener := True, el_scrollTop := 0\<rparr>)\<rparr>)))
      else
        (case dropdown_el w of
           None \<Rightarrow> Inr w
         | Some dropdown \<Rightarrow> Inr (w\<lparr>dropdown_el := Some (dropdown\<lparr>scroll_listener := False\<rparr>)\<rparr>)))"

text \<open>
  The \<^verbatim>\<open>event.target\<close> of a scroll event. The DOM gives \<^verbatim>\<open>scrollHeight\<close> and
  \<^verbatim>\<open>clientHeight\<close> as integers and \<^verbatim>\<open>scrollTop\<close> as a double, which can be fractional.
\<close>

record scroll_target =
  scrollHeight :: int
  scrollTop :: rat
  clientHeight :: int

text \<open>Lines 187-200, the function given to \<^verbatim>\<open>debounce\<close>.\<close>

definition handleScroll :: "(FetchParams \<Rightarrow> fetch_outcome) \<Rightarrow> scroll_target \<Rightarrow> world \<Rightarrow> exn + world" where
  "handleScroll fetchData target w =
     (let bottom = (rat_of_int (scrollHeight target)
                      = js_add (scrollTop target) (rat_of_int (clientHeight target)))
      in if bottom \<and> \<not> loading w \<and> hasMore w then
           let w1 = w\<lparr>currentPage := js_incr (currentPage w)\<rparr>
           in getData fetchData
                ((param w1)(''skipCount'' \<mapsto> Num (currentPage w1), ''MaxResultCount'' \<mapsto> Num 10))
                True w1
         else Inr w)"

subsection \<open>Vocabulary of the properties and sample inputs\<close>

text \<open>The items a resolved fetch returned (none where \<^verbatim>\<open>items\<close> is absent).\<close>

definition returned_items :: "response \<Rightarrow> item list" where
  "returned_items res = (case items res of None \<Rightarrow> [] | Some its \<Rightarrow> its)"

text \<open>
  The parameters of a first page, \<^verbatim>\<open>{...props.param, skipCount: 1, MaxResultCount: 10}\<close>.
\<close>

definition open_request :: "world \<Rightarrow> FetchParams" where
  "open_request w = (param w)(''skipCount'' \<mapsto> Num 1, ''MaxResultCount'' \<mapsto> Num 10)"

text \<open>What each call of \<^verbatim>\<open>fetchData\<close> so far carried under the key \<open>k\<close>.\<close>

definition sent :: "string \<Rightarrow> world \<Rightarrow> jsval list" where
  "sent k w = map (\<lambda>c. prop_of (fst c) k) (fetch_calls w)"


definition mk_item :: "int \<Rightarrow> string \<Rightarrow> item" where
  "mk_item i s = \<lparr>item_id = Num i, item_name = Str s\<rparr>"

definition mk_option :: "string \<Rightarrow> int \<Rightarrow> select_option" where
  "mk_option s i = \<lparr>opt_label = Str s, opt_value = Num i\<rparr>"

definition ten_items :: "item list" where
  "ten_items =
     [mk_item 1 ''a'', mk_item 2 ''b'', mk_item 3 ''c'', mk_item 4 ''d'', mk_item 5 ''e'',
      mk_item 6 ''f'', mk_item 7 ''g'', mk_item 8 ''h'', mk_item 9 ''i'', mk_item 10 ''j'']"

text \<open>Sample fetch functions: a fixed page, an error-flagged response, a rejection, two pages.\<close>

definition page_of :: "item list \<Rightarrow> FetchParams \<Rightarrow> fetch_outcome" where
  "page_of its params = Resolves (Some \<lparr>error = False, items = Some its\<rparr>)"

definition flagged :: "FetchParams \<Rightarrow> fetch_outcome" where
  "flagged params = Resolves (Some \<lparr>error = True, items = None\<rparr>)"

definition rejecting :: "FetchParams \<Rightarrow> fetch_outcome" where
  "rejecting params = Rejects (Str ''Network Error'')"

definition two_pages :: "FetchParams \<Rightarrow> fetch_outcome" where
  "two_pages params =
     (if prop_of params ''skipCount'' = Num 1 then page_of ten_items params
      else page_of [mk_item 11 ''k''] params)"

definition page_request :: "int \<Rightarrow> int \<Rightarrow> FetchParams" where
  "page_request p n = [''skipCount'' \<mapsto> Num p, ''MaxResultCount'' \<mapsto> Num n]"

text \<open>
  Sample states: a component just set up with no name and no value, and one with the
  value 2 selected under the name Bee after a page of two entries has been loaded.
\<close>

definition fresh :: world where
  "fresh = mount (Str []) [] Map.empty"

definition loaded_two :: world where
  "loaded_two =
     (mount (Num 2) ''Bee'' Map.empty)
       \<lparr>itemList := [mk_option ''A'' 1, mk_option ''B'' 2], totalItems := 2\<rparr>"

definition at_bottom :: scroll_target where
  "at_bottom = \<lparr>scrollHeight = 500, scrollTop = 226, clientHeight = 274\<rparr>"

text \<open>A scroll position between two pixels, and a page counter at \<open>2 ^ 53\<close>.\<close>

definition between_pixels :: scroll_target where
  "between_pixels = \<lparr>scrollHeight = 500, scrollTop = 453 / 2, clientHeight = 274\<rparr>"


section \<open>Properties\<close>

lemmas load_defs = getData_def try_block_def catch_block_def message_def snapshot_of_def

lemmas sample_defs = mk_item_def mk_option_def ten_items_def page_of_def flagged_def
  rejecting_def two_pages_def page_request_def fresh_def loaded_two_def at_bottom_def mount_def

subsection \<open>Double arithmetic on whole numbers\<close>









lemma js_add_between_pixels: "js_add (453 / 2) 274 = 1001 / 2"
  by code_simp

subsection \<open>Auxiliary facts\<close>

lemma newItems_of_returned:
  "newItems_of res =
     map (\<lambda>it. \<lparr>opt_label = item_name it, opt_value = item_id it\<rparr>) (returned_items res)"
  by (simp add: newItems_of_def returned_items_def split: option.splits)

lemma ensure_name_distinct:
  "distinct (map opt_value xs) \<Longrightarrow> distinct (map opt_value (ensure_name nm v xs))"
  by (auto simp: ensure_name_def find_None_iff split: option.splits)

text \<open>Watching the name keeps a duplicate-free list duplicate-free.\<close>

lemma watch_name_distinct:
  "distinct (map opt_value (itemList w)) \<Longrightarrow>
     distinct (map opt_value (itemList (watch_name newVal w)))"
  by (simp add: watch_name_def Let_def ensure_name_distinct)

text \<open>The list a successful load leaves behind.\<close>

lemma getData_success:
  assumes "hasMore w \<or> \<not> isLoadMore"
    and "fetchData params = Resolves (Some res)" and "\<not> error res"
  shows "\<exists>w'. getData fetchData params isLoadMore w = Inr w' \<and>
           itemList w' = ensure_name (name w) (value_ref w)
                           ((if isLoadMore then itemList w else []) @ newItems_of res)"
  using assms by (auto simp: load_defs Let_def)

subsection \<open>Successful loads\<close>

text \<open>
  C1 as stated fails. With the entries A (value 1) and B (value 2) loaded, a next page
  that repeats B is appended as it is: the list then holds the value 2 twice.
\<close>

theorem getData_append_duplicate_counterexample:
  "map_sum id (map opt_value \<circ> itemList)
     (getData (page_of [mk_item 2 ''B'', mk_item 3 ''C'']) (page_request 2 2) True loaded_two)
   = Inr [Num 1, Num 2, Num 2, Num 3]"
  by (simp add: load_defs sample_defs newItems_of_def ensure_name_def prop_of_def Let_def)

text \<open>
  C1, amended. A successful load builds its list from the fetched items (replacing) or
  from the previous options followed by the fetched items (appending). If the values of
  that list are pairwise different, the resulting options list contains no two entries
  with the same value: putting the named entry in front never introduces a duplicate.
\<close>

theorem getData_success_distinct:
  assumes "hasMore w \<or> \<not> isLoadMore"
    and "fetchData params = Resolves (Some res)" and "\<not> error res"
    and "distinct ((if isLoadMore then map opt_value (itemList w) else [])
                    @ map item_id (returned_items res))"
  shows "\<exists>w'. getData fetchData params isLoadMore w = Inr w' \<and>
           distinct (map opt_value (itemList w'))"
proof -
  from getData_success [of w isLoadMore fetchData params res, OF assms(1-3)] obtain w' where
    r: "getData fetchData params isLoadMore w = Inr w'" and
    l: "itemList w' = ensure_name (name w) (value_ref w)
                        ((if isLoadMore then itemList w else []) @ newItems_of res)"
    by blast
  have "map opt_value (newItems_of res) = map item_id (returned_items res)"
    by (simp add: newItems_of_returned comp_def)
  with assms(4)
  have "distinct (map opt_value ((if isLoadMore then itemList w else []) @ newItems_of res))"
    by (simp split: if_splits)
  then have "distinct (map opt_value (itemList w'))"
    unfolding l by (rule ensure_name_distinct)
  with r show ?thesis by blast
qed

theorem getData_success_distinct_witness:
  "(hasMore loaded_two \<or> \<not> True) \<and>
   page_of [mk_item 3 ''C'', mk_item 4 ''D''] (page_request 2 2)
     = Resolves (Some \<lparr>error = False, items = Some [mk_item 3 ''C'', mk_item 4 ''D'']\<rparr>) \<and>
   distinct (map opt_value (itemList loaded_two)
             @ map item_id [mk_item 3 ''C'', mk_item 4 ''D'']) \<and>
   (\<exists>w'. getData (page_of [mk_item 3 ''C'', mk_item 4 ''D'']) (page_request 2 2) True loaded_two
            = Inr w' \<and>
          distinct (map opt_value (itemList w')))"
  using getData_success_distinct
    [of loaded_two True "page_of [mk_item 3 ''C'', mk_item 4 ''D'']" "page_request 2 2"
        "\<lparr>error = False, items = Some [mk_item 3 ''C'', mk_item 4 ''D'']\<rparr>"]
  by (simp add: sample_defs returned_items_def)

text \<open>
  C7 as stated fails. The name Bee and the value 2 are set and the appended page (C,
  value 3) has no item of value 2, yet no entry is put in front: the list already holds
  an entry of value 2, at position 1 under its fetched label.
\<close>

theorem getData_append_not_prepended_counterexample:
  "name loaded_two = ''Bee'' \<and> value_ref loaded_two = Num 2 \<and>
   map_sum id itemList
     (getData (page_of [mk_item 3 ''C'']) (page_request 2 1) True loaded_two)
   = Inr [mk_option ''A'' 1, mk_option ''B'' 2, mk_option ''C'' 3]"
  by (simp add: load_defs sample_defs newItems_of_def ensure_name_def prop_of_def Let_def)

text \<open>
  C7, amended. For every successful load where the name is a non-empty string, the
  selected value is truthy (a non-empty string or a number other than 0) and neither a
  fetched item nor, when appending, an option already in the list has that value, the
  entry \<^verbatim>\<open>{label: name, value}\<close> is at position 0 of the resulting list, in front of the
  previous options (when appending) and the fetched items.
\<close>

theorem getData_success_pins_name:
  assumes "hasMore w \<or> \<not> isLoadMore"
    and "fetchData params = Resolves (Some res)" and "\<not> error res"
    and "name w \<noteq> []" and "truthy (value_ref w)"
    and "value_ref w \<notin> set ((if isLoadMore then map opt_value (itemList w) else [])
                                @ map item_id (returned_items res))"
  shows "\<exists>w'. getData fetchData params isLoadMore w = Inr w' \<and>
           itemList w' = \<lparr>opt_label = Str (name w), opt_value = value_ref w\<rparr>
                          # (if isLoadMore then itemList w else []) @ newItems_of res"
proof -
  from getData_success [of w isLoadMore fetchData params res, OF assms(1-3)] obtain w' where
    r: "getData fetchData params isLoadMore w = Inr w'" and
    l: "itemList w' = ensure_name (name w) (value_ref w)
                        ((if isLoadMore then itemList w else []) @ newItems_of res)"
    by blast
  have "find (\<lambda>it. opt_value it = value_ref w)
          ((if isLoadMore then itemList w else []) @ newItems_of res) = None"
    using assms(6)
    by (auto simp: find_None_iff newItems_of_returned image_iff split: if_splits)
  with assms(4,5) l
  have "itemList w' = \<lparr>opt_label = Str (name w), opt_value = value_ref w\<rparr>
                        # (if isLoadMore then itemList w else []) @ newItems_of res"
    by (simp add: ensure_name_def)
  with r show ?thesis by blast
qed

theorem getData_success_pins_name_witness:
  "(hasMore loaded_two \<or> \<not> False) \<and>
   page_of [mk_item 3 ''C''] (page_request 1 1)
     = Resolves (Some \<lparr>error = False, items = Some [mk_item 3 ''C'']\<rparr>) \<and>
   name loaded_two \<noteq> [] \<and> truthy (value_ref loaded_two) \<and>
   value_ref loaded_two \<notin> set (map item_id [mk_item 3 ''C'']) \<and>
   map_sum id itemList (getData (page_of [mk_item 3 ''C'']) (page_request 1 1) False loaded_two)
     = Inr [mk_option ''Bee'' 2, mk_option ''C'' 3]"
  using getData_success_pins_name
    [of loaded_two False "page_of [mk_item 3 ''C'']" "page_request 1 1"
        "\<lparr>error = False, items = Some [mk_item 3 ''C'']\<rparr>"]
  by (auto simp: sample_defs returned_items_def newItems_of_def)

text \<open>
  C4. After every successful load, \<^verbatim>\<open>hasMore\<close> is true if and only if the number of
  items the fetch returned equals \<^verbatim>\<open>params.MaxResultCount\<close>.
\<close>

theorem getData_success_hasMore:
  assumes "hasMore w \<or> \<not> isLoadMore"
    and "fetchData params = Resolves (Some res)" and "\<not> error res"
  shows "\<exists>w'. getData fetchData params isLoadMore w = Inr w' \<and>
           (hasMore w' \<longleftrightarrow>
              prop_of params ''MaxResultCount'' = Num (int (length (returned_items res))))"
  using assms
  by (auto simp: load_defs newItems_of_def returned_items_def Let_def split: option.splits)

theorem getData_success_hasMore_witness:
  "(hasMore fresh \<or> \<not> False) \<and> (hasMore loaded_two \<or> \<not> True) \<and>
   (\<exists>w'. getData (page_of ten_items) (page_request 1 10) False fresh = Inr w' \<and> hasMore w') \<and>
   (\<exists>w'. getData (page_of [mk_item 3 ''C'']) (page_request 2 10) True loaded_two = Inr w' \<and>
          \<not> hasMore w')"
  using getData_success_hasMore
          [of fresh False "page_of ten_items" "page_request 1 10"
              "\<lparr>error = False, items = Some ten_items\<rparr>"]
        getData_success_hasMore
          [of loaded_two True "page_of [mk_item 3 ''C'']" "page_request 2 10"
              "\<lparr>error = False, items = Some [mk_item 3 ''C'']\<rparr>"]
  by (simp add: page_of_def fresh_def loaded_two_def mount_def returned_items_def ten_items_def
        page_request_def prop_of_def)

subsection \<open>Failed loads\<close>

text \<open>
  C2 as stated fails. An error-flagged response leaves no notification behind, a
  rejected fetch leaves one: the two are not handled identically.
\<close>

theorem getData_flagged_no_toast_counterexample:
  "map_sum id toasts (getData flagged (page_request 1 10) False fresh) = Inr [] \<and>
   map_sum id toasts (getData rejecting (page_request 1 10) False fresh)
     = Inr [(Rejection (Str ''Network Error''), ''el'', ''error'')]"
  by (simp add: load_defs sample_defs Let_def)

text \<open>
  C2, amended. For every load that reaches the fetch, a rejected or throwing fetch and an
  error-flagged response both leave the options list empty, \<^verbatim>\<open>hasMore\<close> false and the
  total at 0, and \<^verbatim>\<open>fetchData\<close> has been called once, with no retry. An error
  notification is shown for the rejected or throwing fetch only; the error-flagged
  response shows none.
\<close>

theorem getData_failure_handling:
  assumes "hasMore w \<or> \<not> isLoadMore"
    and "fetchData params = Rejects e \<or> fetchData params = Resolves None \<or>
         fetchData params = Resolves (Some res) \<and> error res"
  shows "\<exists>w'. getData fetchData params isLoadMore w = Inr w' \<and>
           itemList w' = [] \<and> \<not> hasMore w' \<and> totalItems w' = 0 \<and>
           map fst (fetch_calls w') = map fst (fetch_calls w) @ [params] \<and>
           toasts w' = toasts w @
             (case fetchData params of
                Rejects e' \<Rightarrow> [(Rejection e', ''el'', ''error'')]
              | Resolves None \<Rightarrow> [(TypeError, ''el'', ''error'')]
              | Resolves (Some res') \<Rightarrow> [])"
  using assms by (auto simp: load_defs Let_def)

theorem getData_failure_handling_witness:
  "(hasMore fresh \<or> \<not> False) \<and>
   flagged (page_request 1 10) = Resolves (Some \<lparr>error = True, items = None\<rparr>) \<and>
   rejecting (page_request 1 10) = Rejects (Str ''Network Error'') \<and>
   (\<exists>w'. getData flagged (page_request 1 10) False fresh = Inr w' \<and>
          itemList w' = [] \<and> \<not> hasMore w' \<and> totalItems w' = 0 \<and>
          map fst (fetch_calls w') = [page_request 1 10] \<and> toasts w' = []) \<and>
   (\<exists>w'. getData rejecting (page_request 1 10) False fresh = Inr w' \<and>
          itemList w' = [] \<and> \<not> hasMore w' \<and> totalItems w' = 0 \<and>
          map fst (fetch_calls w') = [page_request 1 10] \<and>
          toasts w' = [(Rejection (Str ''Network Error''), ''el'', ''error'')])"
  using getData_failure_handling
          [of fresh False flagged "page_request 1 10" Undefined
              "\<lparr>error = True, items = None\<rparr>"]
        getData_failure_handling
          [of fresh False rejecting "page_request 1 10" "Str ''Network Error''"
              "\<lparr>error = True, items = None\<rparr>"]
  by (simp add: flagged_def rejecting_def fresh_def mount_def)

text \<open>
  C3. For every load that reaches the fetch: where the response carries the error flag,
  the options list is cleared and \<^verbatim>\<open>hasMore\<close> is false, no notification is shown and
  nothing is thrown; where the fetch rejects, the list is cleared and a notification is
  shown.
\<close>

theorem getData_two_failure_kinds:
  assumes "hasMore w \<or> \<not> isLoadMore"
  shows "(fetchData params = Resolves (Some res) \<and> error res \<longrightarrow>
            (\<exists>w'. getData fetchData params isLoadMore w = Inr w' \<and>
                   itemList w' = [] \<and> \<not> hasMore w' \<and> toasts w' = toasts w)) \<and>
         (fetchData params = Rejects e \<longrightarrow>
            (\<exists>w'. getData fetchData params isLoadMore w = Inr w' \<and>
                   itemList w' = [] \<and>
                   toasts w' = toasts w @ [(Rejection e, ''el'', ''error'')]))"
  using assms by (auto simp: load_defs Let_def)

theorem getData_two_failure_kinds_witness:
  "(hasMore loaded_two \<or> \<not> True) \<and>
   flagged (page_request 2 10) = Resolves (Some \<lparr>error = True, items = None\<rparr>) \<and>
   rejecting (page_request 2 10) = Rejects (Str ''Network Error'') \<and>
   (\<exists>w'. getData flagged (page_request 2 10) True loaded_two = Inr w' \<and>
          itemList w' = [] \<and> \<not> hasMore w' \<and> toasts w' = []) \<and>
   (\<exists>w'. getData rejecting (page_request 2 10) True loaded_two = Inr w' \<and>
          itemList w' = [] \<and>
          toasts w' = [(Rejection (Str ''Network Error''), ''el'', ''error'')])"
  using getData_two_failure_kinds
          [of loaded_two True flagged "page_request 2 10"
              "\<lparr>error = True, items = None\<rparr>" Undefined]
        getData_two_failure_kinds
          [of loaded_two True rejecting "page_request 2 10"
              "\<lparr>error = True, items = None\<rparr>" "Str ''Network Error''"]
  by (simp add: flagged_def rejecting_def loaded_two_def mount_def)

subsection \<open>Every load\<close>

text \<open>
  C9. \<^verbatim>\<open>getData\<close> never throws to its caller. Whenever it reaches the fetch, whatever
  the fetch produces (a page, an error-flagged response, a rejection), \<^verbatim>\<open>loading\<close> was
  true when \<^verbatim>\<open>fetchData\<close> was called and is false when \<^verbatim>\<open>getData\<close> completes.
\<close>

theorem getData_never_throws_loading_reset:
  "\<exists>w'. getData fetchData params isLoadMore w = Inr w' \<and>
     (hasMore w \<or> \<not> isLoadMore \<longrightarrow>
        \<not> loading w' \<and>
        fetch_calls w' = fetch_calls w @ [(params, snapshot_of (w\<lparr>loading := True\<rparr>))])"
  by (auto simp: load_defs Let_def split: fetch_outcome.splits option.splits)

theorem getData_never_throws_loading_reset_witness:
  "(hasMore fresh \<or> \<not> False) \<and>
   (\<exists>w'. getData (page_of ten_items) (page_request 1 10) False fresh = Inr w' \<and>
          \<not> loading w' \<and> map (at_loading \<circ> snd) (fetch_calls w') = [True]) \<and>
   (\<exists>w'. getData flagged (page_request 1 10) False fresh = Inr w' \<and>
          \<not> loading w' \<and> map (at_loading \<circ> snd) (fetch_calls w') = [True]) \<and>
   (\<exists>w'. getData rejecting (page_request 1 10) False fresh = Inr w' \<and>
          \<not> loading w' \<and> map (at_loading \<circ> snd) (fetch_calls w') = [True])"
  using getData_never_throws_loading_reset [of "page_of ten_items" "page_request 1 10" False fresh]
        getData_never_throws_loading_reset [of flagged "page_request 1 10" False fresh]
        getData_never_throws_loading_reset [of rejecting "page_request 1 10" False fresh]
  by (auto simp: fresh_def mount_def snapshot_of_def)

text \<open>
  C10. Calling \<^verbatim>\<open>getData\<close> with \<^verbatim>\<open>isLoadMore = true\<close> while \<^verbatim>\<open>hasMore\<close> is false
  returns at once: the whole state is as before, and since the state holds the record
  of calls, \<^verbatim>\<open>fetchData\<close> has not been invoked.
\<close>

theorem getData_loadMore_exhausted_noop:
  assumes "\<not> hasMore w"
  shows "getData fetchData params True w = Inr w"
  using assms by (simp add: getData_def)

theorem getData_loadMore_exhausted_noop_witness:
  "\<not> hasMore (loaded_two\<lparr>hasMore := False\<rparr>) \<and>
   getData rejecting (page_request 2 10) True (loaded_two\<lparr>hasMore := False\<rparr>)
     = Inr (loaded_two\<lparr>hasMore := False\<rparr>)"
  using getData_loadMore_exhausted_noop
          [of "loaded_two\<lparr>hasMore := False\<rparr>" rejecting "page_request 2 10"]
  by simp

subsection \<open>Handlers\<close>

text \<open>
  C5. Whenever the dropdown is opened, \<^verbatim>\<open>fetchData\<close> is called once, with the
  parameters of a first page and no keyword added, and at that call the options are
  empty, the page is 1 and \<^verbatim>\<open>hasMore\<close> is true. The handler then holds what a load in
  replace mode from the reset state leaves.
\<close>

theorem handleVisibleChange_open_resets_then_loads:
  "\<exists>w5 w'.
     getData fetchData (open_request w) False
       (w\<lparr>itemList := [], totalItems := 0, hasMore := True, currentPage := 1\<rparr>) = Inr w5 \<and>
     handleVisibleChange fetchData True w = Inr w' \<and>
     itemList w' = itemList w5 \<and> hasMore w' = hasMore w5 \<and> currentPage w' = 1 \<and>
     fetch_calls w' = fetch_calls w @
       [(open_request w,
         \<lparr>at_itemList = [], at_totalItems = 0, at_loading = True,
          at_currentPage = 1, at_hasMore = True\<rparr>)] \<and>
     open_request w ''keyword'' = param w ''keyword''"
  by (auto simp: handleVisibleChange_def open_request_def load_defs Let_def
           split: fetch_outcome.splits option.splits)

theorem handleVisibleChange_open_resets_then_loads_witness:
  "map_sum id fetch_calls (handleVisibleChange two_pages True loaded_two)
   = Inr [(page_request 1 10,
           \<lparr>at_itemList = [], at_totalItems = 0, at_loading = True,
            at_currentPage = 1, at_hasMore = True\<rparr>)]"
  using handleVisibleChange_open_resets_then_loads [of two_pages loaded_two]
  by (auto simp: loaded_two_def mount_def open_request_def page_request_def)

text \<open>
  The handler takes the container to be at its bottom where \<^verbatim>\<open>scrollTop + clientHeight\<close>,
  as a double, is \<^verbatim>\<open>scrollHeight\<close>. At a position between two pixels the sum is
  fractional and the handler does nothing.
\<close>

lemma handleScroll_between_pixels:
  "handleScroll fetchData between_pixels w = Inr w"
  by (simp add: handleScroll_def between_pixels_def js_add_between_pixels)




text \<open>
  C8 as stated fails. For the empty query the load carries no keyword at all: reading
  \<^verbatim>\<open>keyword\<close> off the parameters gives \<^verbatim>\<open>undefined\<close>, not the query.
\<close>

theorem remoteSearch_empty_query_counterexample:
  "map_sum id (sent ''keyword'') (remoteSearch (page_of ten_items) [] fresh) = Inr [Undefined] \<and>
   map_sum id (sent ''keyword'') (remoteSearch (page_of ten_items) [] fresh) \<noteq> Inr [Str []]"
  by (simp add: remoteSearch_def sent_def load_defs sample_defs newItems_of_def ensure_name_def
        prop_of_def Let_def)

text \<open>
  C8, amended. For every search query, the search sets the page to 1 and \<^verbatim>\<open>hasMore\<close> to
  true before it calls \<^verbatim>\<open>fetchData\<close>, and issues a load in replace mode whose
  parameters are \<^verbatim>\<open>param\<close> merged with \<^verbatim>\<open>skipCount = 1\<close>, \<^verbatim>\<open>MaxResultCount = 10\<close> and,
  where the query is not empty, \<^verbatim>\<open>keyword = query\<close>; for the empty query no keyword is
  merged.
\<close>

theorem remoteSearch_resets_and_loads:
  "\<exists>w'. remoteSearch fetchData query w = Inr w' \<and>
     currentPage w' = 1 \<and>
     fetch_calls w' = fetch_calls w @
       [(if query \<noteq> [] then (open_request w)(''keyword'' \<mapsto> Str query) else open_request w,
         \<lparr>at_itemList = itemList w, at_totalItems = totalItems w, at_loading = True,
          at_currentPage = 1, at_hasMore = True\<rparr>)] \<and>
     remoteSearch fetchData query w =
       getData fetchData
         (if query \<noteq> [] then (open_request w)(''keyword'' \<mapsto> Str query) else open_request w)
         False (w\<lparr>currentPage := 1, hasMore := True\<rparr>)"
  by (auto simp: remoteSearch_def open_request_def load_defs Let_def
           split: fetch_outcome.splits option.splits)

theorem remoteSearch_resets_and_loads_witness:
  "map_sum id (sent ''keyword'') (remoteSearch two_pages ''abc'' loaded_two) = Inr [Str ''abc''] \<and>
   map_sum id (sent ''keyword'') (remoteSearch two_pages [] loaded_two) = Inr [Undefined] \<and>
   map_sum id (sent ''skipCount'') (remoteSearch two_pages ''abc'' loaded_two) = Inr [Num 1]"
  using remoteSearch_resets_and_loads [of two_pages "''abc''" loaded_two]
        remoteSearch_resets_and_loads [of two_pages "[]" loaded_two]
  by (auto simp: sent_def loaded_two_def mount_def open_request_def prop_of_def)

end
